theory Spec2Isabelle
  imports Main
begin

section \<open>Video Insight Analyzer: the Streamlit script \<open>main_app.py\<close>\<close>

text \<open>
  The program is one script that the UI toolkit executes from its first line to its
  last once per user interaction. One execution is modelled as the function
  \<open>run_script\<close>: it takes what the execution reads (the environment variable, the
  value of the text input, whether the button was clicked, what the external calls
  return or raise) and the state that outlives an execution, and returns what the
  execution rendered, the calls it made to the analysis pipeline, how it ended and
  the state it leaves.

  Python strings are modelled as \<open>string\<close>; a character outside ASCII is written as
  the bytes of its UTF-8 encoding.
\<close>

subsection \<open>Exceptions\<close>

text \<open>
  The class of a raised exception, as the \<open>except\<close> clauses of the script tell classes
  apart, in the order of the clauses: an instance of \<open>ConnectionError\<close>; otherwise an
  instance of \<open>ValueError\<close>; otherwise an instance of \<open>Exception\<close>; otherwise an
  exception outside \<open>Exception\<close> (Python's \<open>SystemExit\<close>, \<open>KeyboardInterrupt\<close>,
  \<open>GeneratorExit\<close> and what derives from \<open>BaseException\<close> only), which no clause
  \<open>except Exception\<close> catches. \<open>exc_str\<close> is \<open>str(e)\<close>.
\<close>

datatype exc_class = ConnectionError | ValueError | OtherException | NonException

datatype py_exception = PyExc (exc_class: exc_class) (exc_str: string)

definition is_Exception :: "py_exception \<Rightarrow> bool" where
  "is_Exception e = (exc_class e \<noteq> NonException)"

subsection \<open>Data\<close>

text \<open>Modelled from the spec: the type declaration of \<open>CommunicationAnalysis\<close> is in
  \<open>backend.processing_logic\<close>, which is not in the source; the spec gives it a numeric
  score, a short text label and the transcript text, the three attributes the script
  reads. The score is taken as a Python \<open>int\<close>.\<close>

record CommunicationAnalysis =
  clarity_score :: int
  communication_focus :: string
  transcript :: string

text \<open>
  A client handle \<open>genai.Client(api_key=...)\<close>: the key it was built from and the
  identity of the object (the number of handles constructed before it in the process).
\<close>

record client =
  client_api_key :: string
  client_id :: nat

text \<open>What the script renders: the calls to the toolkit, in order, with their arguments.
  A container (\<open>with st.status(...)\<close>, \<open>with st.expander(...)\<close>) holds the calls made
  inside its block.\<close>

datatype element =
    SetPageConfig string string string
  | Title string
  | Markdown string
  | Caption string
  | Subheader string
  | Warning string
  | Error string
  | ExceptionBox py_exception
  | TextInput string string string
  | Button string string
  | Status string bool "element list"
  | StatusWrite string
  | StatusUpdate string string bool
  | Metric string string string
  | Info string
  | Expander string bool "element list"
  | Code string string

text \<open>How one execution of the script ends: it reaches its last line, it is stopped by
  \<open>st.stop()\<close>, or an exception leaves the script uncaught.\<close>

datatype control = Completed | Stopped | Raised py_exception

text \<open>Modelled from the spec: \<open>st.cache_resource\<close> belongs to the UI toolkit and is not in
  the source; the spec describes it as a lazily initialised singleton behind an accessor,
  constructed under a one-time guard. The record is the state that outlives one
  execution of the script. \<open>client_cache\<close> is the storage of the decorator for
  \<open>get_gemini_client\<close>: empty until a call of the decorated function returns, then
  holding the returned handle. \<open>constructions\<close> counts the handles that
  \<open>genai.Client\<close> has returned in the process. \<open>client_ready\<close> is
  \<open>st.session_state['client_ready']\<close> (\<open>None\<close>: the key is not set).
\<close>

record proc_state =
  client_cache :: "client option"
  constructions :: nat
  client_ready :: "bool option"

definition fresh_process :: proc_state where
  "fresh_process = \<lparr>client_cache = None, constructions = 0, client_ready = None\<rparr>"

text \<open>
  What one execution reads from outside: \<open>os.getenv("GEMINI_API_KEY")\<close>; whether
  \<open>genai.Client(api_key=key)\<close> raises (\<open>Some e\<close>) or returns (\<open>None\<close>); the value of the
  text input; whether this execution was triggered by a click on the button; and
  \<open>process_video_insights\<close>, which returns an analysis (\<open>Inr\<close>) or raises (\<open>Inl\<close>).
\<close>

record run_input =
  GEMINI_API_KEY :: "string option"
  genai_Client :: "string \<Rightarrow> py_exception option"
  video_url :: string
  button_clicked :: bool
  process_video_insights :: "string \<Rightarrow> client \<Rightarrow> py_exception + CommunicationAnalysis"

record run_result =
  rendered :: "element list"
  pipeline_calls :: "(string \<times> client) list"
  ended :: control
  proc_after :: proc_state

subsection \<open>Strings\<close>

text \<open>\<open>s.startswith(p)\<close> and \<open>s.startswith((p1, p2, ...))\<close>.\<close>

definition startswith :: "string \<Rightarrow> string \<Rightarrow> bool" where
  "startswith s p = (take (length p) s = p)"

definition startswith_any :: "string \<Rightarrow> string list \<Rightarrow> bool" where
  "startswith_any s ps = list_ex (startswith s) ps"

text \<open>\<open>str(n)\<close> of a Python \<open>int\<close>, which is what \<open>f"{n}"\<close> inserts.\<close>

definition digit_char :: "nat \<Rightarrow> char" where
  "digit_char d = ''0123456789'' ! d"

function str_nat :: "nat \<Rightarrow> string" where
  "str_nat n = (if n < 10 then [digit_char n] else str_nat (n div 10) @ [digit_char (n mod 10)])"
  by pat_completeness auto
termination
  by (relation "measure (\<lambda>n. n)") auto

declare str_nat.simps [simp del]

definition str_int :: "int \<Rightarrow> string" where
  "str_int i = (if i < 0 then CHR ''-'' # str_nat (nat (- i)) else str_nat (nat i))"

text \<open>Python limits the conversion of an \<open>int\<close> to a decimal string (version 3.11 and
  later, the default of \<open>sys.set_int_max_str_digits\<close>): with more than 4300 digits, the
  sign not counted, \<open>str(n)\<close> and \<open>f"{n}"\<close> raise \<open>ValueError\<close>.\<close>

definition int_max_str_digits :: nat where
  "int_max_str_digits = 4300"

definition int_str_error :: py_exception where
  "int_str_error =
     PyExc ValueError ''Exceeds the limit (4300 digits) for integer string conversion; use sys.set_int_max_str_digits() to increase the limit''"

definition format_int :: "int \<Rightarrow> py_exception + string" where
  "format_int i =
     (if int_max_str_digits < length (str_nat (nat \<bar>i\<bar>)) then Inl int_str_error
      else Inr (str_int i))"

subsection \<open>Lines 9 to 28: the API key and the client\<close>

text \<open>The truth value of \<open>GEMINI_API_KEY\<close> in \<open>if GEMINI_API_KEY:\<close>: false for \<open>None\<close>
  and for the empty string.\<close>

definition key_truthy :: "string option \<Rightarrow> bool" where
  "key_truthy k = (case k of None \<Rightarrow> False | Some s \<Rightarrow> s \<noteq> [])"

text \<open>\<open>get_gemini_client()\<close> under \<open>@st.cache_resource\<close>: the cached handle when there is
  one; otherwise \<open>genai.Client(api_key=GEMINI_API_KEY)\<close>, stored when it returns.\<close>

definition get_gemini_client ::
  "(string \<Rightarrow> py_exception option) \<Rightarrow> string \<Rightarrow> proc_state \<Rightarrow> (py_exception + client) \<times> proc_state" where
  "get_gemini_client ctor key ps =
     (case client_cache ps of
        Some c \<Rightarrow> (Inr c, ps)
      | None \<Rightarrow>
          (case ctor key of
             Some e \<Rightarrow> (Inl e, ps)
           | None \<Rightarrow>
               (let c = \<lparr>client_api_key = key, client_id = constructions ps\<rparr>
                in (Inr c, ps\<lparr>client_cache := Some c,
                               constructions := Suc (constructions ps)\<rparr>))))"

text \<open>The result of lines 14 to 28: the variable \<open>gemini_client\<close> (\<open>None\<close>: not assigned),
  what was rendered, the exception that left the block uncaught, and the state.\<close>

record init_result =
  gemini_client :: "client option"
  init_rendered :: "element list"
  init_raised :: "py_exception option"
  init_state :: proc_state

definition initialise :: "run_input \<Rightarrow> proc_state \<Rightarrow> init_result" where
  "initialise inp ps =
     (case GEMINI_API_KEY inp of
        None \<Rightarrow>
          \<lparr>gemini_client = None, init_rendered = [], init_raised = None,
           init_state = ps\<lparr>client_ready := Some False\<rparr>\<rparr>
      | Some key \<Rightarrow>
          if key = [] then
            \<lparr>gemini_client = None, init_rendered = [], init_raised = None,
             init_state = ps\<lparr>client_ready := Some False\<rparr>\<rparr>
          else
            (case get_gemini_client (genai_Client inp) key ps of
               (Inr c, ps') \<Rightarrow>
                 \<lparr>gemini_client = Some c, init_rendered = [], init_raised = None,
                  init_state = ps'\<lparr>client_ready := Some True\<rparr>\<rparr>
             | (Inl e, ps') \<Rightarrow>
                 if is_Exception e then
                   \<lparr>gemini_client = None,
                    init_rendered = [Error (''Failed to initialize Gemini Client: '' @ exc_str e)],
                    init_raised = None,
                    init_state = ps'\<lparr>client_ready := Some False\<rparr>\<rparr>
                 else
                   \<lparr>gemini_client = None, init_rendered = [], init_raised = Some e,
                    init_state = ps'\<rparr>))"

subsection \<open>Lines 32 to 57: the page, the warning, the input\<close>

definition page_header :: "element list" where
  "page_header =
     [SetPageConfig ''Video Insight Analyzer'' ''centered'' ''auto'',
      Title ([CHR 0xF0, CHR 0x9F, CHR 0x93, CHR 0xB9] @ '' Video Insight Analyzer''),
      Markdown ([CHR 0x0A] @ ''    A simple backend-focused tool to extract communication insights from a public video URL ''
        @ [CHR 0x0A] @ ''    (e.g., YouTube, Loom). This tool fulfills the **Python Assessment** requirements.''
        @ [CHR 0x0A] @ ''    '')]"

definition api_key_warning :: element where
  "api_key_warning =
     Warning ([CHR 0xF0, CHR 0x9F, CHR 0x9A, CHR 0xA8]
       @ '' **API Key Missing!** Please ensure you have set the `GEMINI_API_KEY` in your `.env` file and restarted the application.'')"

definition url_input :: element where
  "url_input =
     TextInput ''Enter Public Video URL'' ''e.g., https://www.youtube.com/watch?v=dQw4w9WgXcQ''
       ''video_url_input''"

definition analyze_button :: element where
  "analyze_button = Button ''Analyze Video Insights'' ''primary''"

subsection \<open>Lines 60 to 113: the handler of the button\<close>

definition validation_error :: element where
  "validation_error = Error ''Please enter a valid URL starting with http:// or https://''"

text \<open>The three \<open>status.write\<close> calls before the pipeline call.\<close>

definition status_progress :: "element list" where
  "status_progress =
     [StatusWrite ''Starting video analysis pipeline...'',
      StatusWrite ''Extracting and preparing audio from URL...'',
      StatusWrite ''Sending audio to Gemini for transcription and LLM analysis...'']"

definition status_complete :: element where
  "status_complete =
     Status ''Analyzing Video...'' True
       (status_progress @
        [StatusWrite ''Analysis complete. Structuring results.'',
         StatusUpdate ''Analysis Complete!'' ''complete'' False])"

definition status_interrupted :: element where
  "status_interrupted = Status ''Analyzing Video...'' True status_progress"

text \<open>Lines 89 to 103, the outputs of a successful analysis. The metric takes the score
  as formatted by \<open>f"{analysis.clarity_score}%"\<close>.\<close>

definition score_metric :: "string \<Rightarrow> element" where
  "score_metric s = Metric ''Clarity Score'' (s @ ''%'') ''off''"

definition focus_info :: "CommunicationAnalysis \<Rightarrow> element" where
  "focus_info a = Info (''**Communication Focus:** '' @ communication_focus a)"

definition transcript_expander :: "CommunicationAnalysis \<Rightarrow> element" where
  "transcript_expander a =
     Expander ''View Full Transcript'' False [Code (transcript a) ''text'']"

text \<open>What lines 89 to 103 render, and the exception that ends them: the subheader is
  rendered first; the f-string of line 94 is evaluated before \<open>st.metric\<close> is called, and
  when it raises, nothing after the subheader is rendered.\<close>

definition results_subheader :: element where
  "results_subheader = Subheader ([CHR 0xE2, CHR 0x9C, CHR 0x85] @ '' Analysis Results'')"

definition display_outputs :: "CommunicationAnalysis \<Rightarrow> element list \<times> py_exception option" where
  "display_outputs a =
     (case format_int (clarity_score a) of
        Inl e \<Rightarrow> ([results_subheader], Some e)
      | Inr s \<Rightarrow>
          ([results_subheader, score_metric s, focus_info a, transcript_expander a], None))"

text \<open>Lines 105 to 113, the \<open>except\<close> clauses: what each renders, and nothing for an
  exception that none of them catches.\<close>

definition api_error :: "py_exception \<Rightarrow> element list" where
  "api_error e =
     [Error (''**API Error:** '' @ exc_str e),
      Markdown ''Please verify your Gemini API key is correct and ensure network connectivity.'']"

definition processing_error :: "py_exception \<Rightarrow> element list" where
  "processing_error e =
     [Error (''**Processing Error:** '' @ exc_str e),
      Markdown ''This usually means `yt-dlp` couldn't process the video URL. Ensure the link is public and accessible.'']"

definition unexpected_error :: "py_exception \<Rightarrow> element list" where
  "unexpected_error e =
     [ExceptionBox e,
      Error (''An unexpected error occurred during processing: '' @ exc_str e)]"

definition except_clauses :: "py_exception \<Rightarrow> element list \<times> control" where
  "except_clauses e =
     (case exc_class e of
        ConnectionError \<Rightarrow> (api_error e, Completed)
      | ValueError \<Rightarrow> (processing_error e, Completed)
      | OtherException \<Rightarrow> (unexpected_error e, Completed)
      | NonException \<Rightarrow> ([], Raised e))"

text \<open>The \<open>try\<close> statement of lines 67 to 113. Reading the variable \<open>gemini_client\<close>
  when it was never assigned raises \<open>NameError\<close>, inside the \<open>try\<close>. Lines 89 to 103
  are inside the \<open>try\<close> too: an exception raised there goes to the \<open>except\<close> clauses
  after what was rendered before it. The toolkit's own calls are taken to return.\<close>

definition name_error :: py_exception where
  "name_error = PyExc OtherException ''name 'gemini_client' is not defined''"

definition try_block ::
  "run_input \<Rightarrow> client option \<Rightarrow> element list \<times> (string \<times> client) list \<times> control" where
  "try_block inp gc =
     (case gc of
        None \<Rightarrow>
          (status_interrupted # fst (except_clauses name_error), [],
           snd (except_clauses name_error))
      | Some c \<Rightarrow>
          (case process_video_insights inp (video_url inp) c of
             Inr analysis \<Rightarrow>
               (case display_outputs analysis of
                  (out, None) \<Rightarrow>
                    (status_complete # out, [(video_url inp, c)], Completed)
                | (out, Some e) \<Rightarrow>
                    (status_complete # out @ fst (except_clauses e), [(video_url inp, c)],
                     snd (except_clauses e)))
           | Inl e \<Rightarrow>
               (status_interrupted # fst (except_clauses e), [(video_url inp, c)],
                snd (except_clauses e))))"

text \<open>Lines 60 to 113: \<open>st.button(...)\<close> renders the button and is true in the execution
  its click triggered; \<open>and video_url\<close> is true for a string that is not empty.\<close>

definition handler ::
  "run_input \<Rightarrow> client option \<Rightarrow> element list \<times> (string \<times> client) list \<times> control" where
  "handler inp gc =
     (if button_clicked inp \<and> video_url inp \<noteq> [] then
        (if \<not> startswith_any (video_url inp) [''http://'', ''https://''] then
           ([validation_error], [], Stopped)
         else try_block inp gc)
      else ([], [], Completed))"

subsection \<open>Lines 115 to 117 and the whole script\<close>

definition footer :: "element list" where
  "footer =
     [Markdown ''---'',
      Caption ''Backend powered by Python, yt-dlp, and Google Gemini. UI via Streamlit.'']"

definition run_script :: "run_input \<Rightarrow> proc_state \<Rightarrow> run_result" where
  "run_script inp ps =
     (let i = initialise inp ps in
      case init_raised i of
        Some e \<Rightarrow>
          \<lparr>rendered = init_rendered i, pipeline_calls = [], ended = Raised e,
           proc_after = init_state i\<rparr>
      | None \<Rightarrow>
          if client_ready (init_state i) \<noteq> Some True then
            \<lparr>rendered = init_rendered i @ page_header @ [api_key_warning],
             pipeline_calls = [], ended = Stopped, proc_after = init_state i\<rparr>
          else
            (case handler inp (gemini_client i) of
               (out, calls, Completed) \<Rightarrow>
                 \<lparr>rendered = init_rendered i @ page_header @ [url_input, analyze_button]
                              @ out @ footer,
                  pipeline_calls = calls, ended = Completed, proc_after = init_state i\<rparr>
             | (out, calls, c) \<Rightarrow>
                 \<lparr>rendered = init_rendered i @ page_header @ [url_input, analyze_button] @ out,
                  pipeline_calls = calls, ended = c, proc_after = init_state i\<rparr>))"

text \<open>A sequence of executions in one process, each with its own inputs.\<close>

fun run_all :: "run_input list \<Rightarrow> proc_state \<Rightarrow> proc_state" where
  "run_all [] ps = ps"
| "run_all (inp # inps) ps = run_all inps (proc_after (run_script inp ps))"

text \<open>The three outputs of a successful analysis are what \<open>st.metric\<close>, \<open>st.info\<close> and
  \<open>st.expander\<close> render; the script calls them on lines 92 to 103 only.\<close>

fun success_output :: "element \<Rightarrow> bool" where
  "success_output (Metric l v d) = True"
| "success_output (Info t) = True"
| "success_output (Expander l x body) = True"
| "success_output el = False"

text \<open>The invariant of the process state: no handle has been constructed while the cache
  is empty, and exactly one once it is filled.\<close>

definition single_client :: "proc_state \<Rightarrow> bool" where
  "single_client ps =
     (case client_cache ps of None \<Rightarrow> constructions ps = 0 | Some c \<Rightarrow> constructions ps = 1)"

subsection \<open>Example inputs\<close>

text \<open>A constructor of the client that returns, a pipeline that returns a given analysis,
  a pipeline that raises a given exception, the analysis of the spec's example, and an
  execution triggered by a click with the API key set.\<close>

definition client_ok :: "string \<Rightarrow> py_exception option" where
  "client_ok key = None"

definition pipeline_returns ::
  "CommunicationAnalysis \<Rightarrow> string \<Rightarrow> client \<Rightarrow> py_exception + CommunicationAnalysis" where
  "pipeline_returns a url c = Inr a"

definition pipeline_raises ::
  "py_exception \<Rightarrow> string \<Rightarrow> client \<Rightarrow> py_exception + CommunicationAnalysis" where
  "pipeline_raises e url c = Inl e"

definition example_analysis :: CommunicationAnalysis where
  "example_analysis =
     \<lparr>clarity_score = 87, communication_focus = ''Active Listening'',
      transcript = ''Hello world''\<rparr>"

definition click ::
  "string \<Rightarrow> (string \<Rightarrow> client \<Rightarrow> py_exception + CommunicationAnalysis) \<Rightarrow> run_input" where
  "click url pipeline =
     \<lparr>GEMINI_API_KEY = Some ''key'', genai_Client = client_ok, video_url = url,
      button_clicked = True, process_video_insights = pipeline\<rparr>"

text \<open>A second analysis, with other values in its three fields.\<close>

definition other_analysis :: CommunicationAnalysis where
  "other_analysis =
     \<lparr>clarity_score = 42, communication_focus = ''Storytelling'',
      transcript = ''Good morning''\<rparr>"

text \<open>The same execution with the API key missing from the environment.\<close>

definition no_key ::
  "string \<Rightarrow> (string \<Rightarrow> client \<Rightarrow> py_exception + CommunicationAnalysis) \<Rightarrow> run_input" where
  "no_key url pipeline = (click url pipeline)\<lparr>GEMINI_API_KEY := None\<rparr>"

section \<open>Properties\<close>

subsection \<open>Shared facts about one execution\<close>

lemma handler_invalid_calls:
  "\<not> startswith_any (video_url inp) [''http://'', ''https://''] \<Longrightarrow>
   fst (snd (handler inp gc)) = []"
  by (simp add: handler_def)

lemma run_script_calls:
  "pipeline_calls (run_script inp ps) =
     (if init_raised (initialise inp ps) = None
         \<and> client_ready (init_state (initialise inp ps)) = Some True
      then fst (snd (handler inp (gemini_client (initialise inp ps)))) else [])"
  by (simp add: run_script_def Let_def split: option.splits prod.splits control.splits)

lemma initialise_click:
  "initialise (click url p) fresh_process =
     \<lparr>gemini_client = Some \<lparr>client_api_key = ''key'', client_id = 0\<rparr>, init_rendered = [],
      init_raised = None,
      init_state = \<lparr>client_cache = Some \<lparr>client_api_key = ''key'', client_id = 0\<rparr>,
                    constructions = Suc 0, client_ready = Some True\<rparr>\<rparr>"
  by (simp add: initialise_def click_def fresh_process_def get_gemini_client_def
      client_ok_def Let_def)

lemma run_script_rendered:
  "init_raised (initialise inp ps) = None \<Longrightarrow>
   client_ready (init_state (initialise inp ps)) = Some True \<Longrightarrow>
   init_rendered (initialise inp ps) = [] \<Longrightarrow>
   handler inp (gemini_client (initialise inp ps)) = (out, calls, c) \<Longrightarrow>
   run_script inp ps =
     \<lparr>rendered = page_header @ [url_input, analyze_button] @ out
                  @ (if c = Completed then footer else []),
      pipeline_calls = calls, ended = c, proc_after = init_state (initialise inp ps)\<rparr>"
  by (simp add: run_script_def Let_def split: control.splits)

lemma initialise_no_key:
  "\<not> key_truthy (GEMINI_API_KEY inp) \<Longrightarrow>
   initialise inp ps =
     \<lparr>gemini_client = None, init_rendered = [], init_raised = None,
      init_state = ps\<lparr>client_ready := Some False\<rparr>\<rparr>"
  by (simp add: initialise_def key_truthy_def split: option.splits)

lemma initialise_has_client:
  "gemini_client (initialise inp ps) = Some c \<Longrightarrow>
   init_raised (initialise inp ps) = None
   \<and> init_rendered (initialise inp ps) = []
   \<and> client_ready (init_state (initialise inp ps)) = Some True"
  by (auto simp add: initialise_def split: option.splits prod.splits sum.splits if_splits)

lemma startswith_any_nonempty:
  "startswith_any s [''http://'', ''https://''] \<Longrightarrow> s \<noteq> []"
  by (auto simp add: startswith_any_def startswith_def)

lemma run_script_click:
  "handler (click url p) (Some \<lparr>client_api_key = ''key'', client_id = 0\<rparr>) = (out, calls, c) \<Longrightarrow>
   run_script (click url p) fresh_process =
     \<lparr>rendered = page_header @ [url_input, analyze_button] @ out
                  @ (if c = Completed then footer else []),
      pipeline_calls = calls, ended = c,
      proc_after = \<lparr>client_cache = Some \<lparr>client_api_key = ''key'', client_id = 0\<rparr>,
                    constructions = Suc 0, client_ready = Some True\<rparr>\<rparr>"
  using run_script_rendered [of "click url p" fresh_process out calls c]
  by (simp add: initialise_click)

lemma run_script_try:
  assumes "gemini_client (initialise inp ps) = Some c"
    and "button_clicked inp"
    and "startswith_any (video_url inp) [''http://'', ''https://'']"
    and "try_block inp (Some c) = (out, calls, k)"
  shows "run_script inp ps =
     \<lparr>rendered = page_header @ [url_input, analyze_button] @ out
                  @ (if k = Completed then footer else []),
      pipeline_calls = calls, ended = k, proc_after = init_state (initialise inp ps)\<rparr>"
proof -
  have "handler inp (gemini_client (initialise inp ps)) = (out, calls, k)"
    using assms startswith_any_nonempty [OF assms(3)] by (simp add: handler_def)
  then show ?thesis
    using initialise_has_client [OF assms(1)] by (simp add: run_script_rendered)
qed

lemma try_block_raises:
  "process_video_insights inp (video_url inp) c = Inl e \<Longrightarrow>
   try_block inp (Some c) =
     (status_interrupted # fst (except_clauses e), [(video_url inp, c)], snd (except_clauses e))"
  by (simp add: try_block_def)

lemma display_outputs_raises:
  "snd (display_outputs a) = Some e \<Longrightarrow>
   e = int_str_error \<and> fst (display_outputs a) = [results_subheader]"
  by (auto simp add: display_outputs_def format_int_def split: if_splits)

lemma except_clauses_int_str_error:
  "except_clauses int_str_error = (processing_error int_str_error, Completed)"
  by (simp add: except_clauses_def int_str_error_def)

lemma try_block_returns:
  "process_video_insights inp (video_url inp) c = Inr a \<Longrightarrow>
   try_block inp (Some c) =
     (status_complete # fst (display_outputs a)
        @ (case snd (display_outputs a) of None \<Rightarrow> [] | Some e \<Rightarrow> processing_error e),
      [(video_url inp, c)], Completed)"
proof (cases "snd (display_outputs a)")
  case None
  assume "process_video_insights inp (video_url inp) c = Inr a"
  then show ?thesis
    using None by (cases "display_outputs a") (simp add: try_block_def)
next
  case (Some e)
  assume "process_video_insights inp (video_url inp) c = Inr a"
  then show ?thesis
    using Some display_outputs_raises [OF Some] except_clauses_int_str_error
    by (cases "display_outputs a") (simp add: try_block_def)
qed

lemma display_outputs_within_limit:
  "length (str_nat (nat \<bar>clarity_score a\<bar>)) \<le> int_max_str_digits \<Longrightarrow>
   display_outputs a =
     ([results_subheader, score_metric (str_int (clarity_score a)), focus_info a,
       transcript_expander a], None)"
  by (simp add: display_outputs_def format_int_def)

lemma display_outputs_over_limit:
  "int_max_str_digits < length (str_nat (nat \<bar>clarity_score a\<bar>)) \<Longrightarrow>
   display_outputs a = ([results_subheader], Some int_str_error)"
  by (simp add: display_outputs_def format_int_def)

lemma str_nat_87: "str_nat 87 = ''87''"
  by (simp add: str_nat.simps digit_char_def)

lemma str_nat_42: "str_nat 42 = ''42''"
  by (simp add: str_nat.simps digit_char_def)

lemma proc_after_run_script:
  "proc_after (run_script inp ps) = init_state (initialise inp ps)"
  by (simp add: run_script_def Let_def split: option.splits prod.splits control.splits)

lemma initialise_click_cached:
  "client_cache ps = Some c \<Longrightarrow>
   initialise (click url p) ps =
     \<lparr>gemini_client = Some c, init_rendered = [], init_raised = None,
      init_state = ps\<lparr>client_ready := Some True\<rparr>\<rparr>"
  by (simp add: initialise_def click_def get_gemini_client_def)

subsection \<open>The client across executions\<close>

lemma get_gemini_client_cached:
  "client_cache ps = Some c \<Longrightarrow> get_gemini_client ctor key ps = (Inr c, ps)"
  by (simp add: get_gemini_client_def)

lemma get_gemini_client_single:
  "single_client ps \<Longrightarrow> single_client (snd (get_gemini_client ctor key ps))"
  by (simp add: get_gemini_client_def single_client_def Let_def split: option.splits)

lemma get_gemini_client_returns_cache:
  "get_gemini_client ctor key ps = (Inr c, ps') \<Longrightarrow> client_cache ps' = Some c"
  by (auto simp add: get_gemini_client_def Let_def split: option.splits)

lemma single_client_ready:
  "single_client (ps\<lparr>client_ready := r\<rparr>) = single_client ps"
  by (simp add: single_client_def split: option.splits)

lemma initialise_single:
  assumes "single_client ps"
  shows "single_client (init_state (initialise inp ps))"
proof (cases "GEMINI_API_KEY inp")
  case None
  then show ?thesis using assms by (simp add: initialise_def single_client_ready)
next
  case (Some key)
  show ?thesis
  proof (cases "key = []")
    case True
    then show ?thesis using Some assms by (simp add: initialise_def single_client_ready)
  next
    case False
    obtain r ps' where g: "get_gemini_client (genai_Client inp) key ps = (r, ps')"
      by (cases "get_gemini_client (genai_Client inp) key ps")
    have "single_client ps'"
      using get_gemini_client_single [OF assms, of "genai_Client inp" key] g by simp
    then show ?thesis
      using Some False g
      by (cases r) (simp_all add: initialise_def single_client_ready)
  qed
qed

lemma initialise_keeps_cache:
  "client_cache ps = Some c \<Longrightarrow>
   client_cache (init_state (initialise inp ps)) = Some c
   \<and> constructions (init_state (initialise inp ps)) = constructions ps"
  by (simp add: initialise_def get_gemini_client_def split: option.splits)

lemma initialise_client_is_cache:
  "gemini_client (initialise inp ps) = Some c \<Longrightarrow>
   client_cache (init_state (initialise inp ps)) = Some c"
  by (auto simp add: initialise_def split: option.splits prod.splits sum.splits if_splits
      dest: get_gemini_client_returns_cache)

lemma run_all_single: "single_client ps \<Longrightarrow> single_client (run_all inps ps)"
  by (induction inps arbitrary: ps) (simp_all add: proc_after_run_script initialise_single)

lemma run_all_keeps_cache:
  "client_cache ps = Some c \<Longrightarrow>
   client_cache (run_all inps ps) = Some c \<and> constructions (run_all inps ps) = constructions ps"
  by (induction inps arbitrary: ps) (simp_all add: proc_after_run_script initialise_keeps_cache)

lemma handler_calls_client:
  "set (fst (snd (handler inp gc))) \<subseteq> (case gc of None \<Rightarrow> {} | Some c \<Rightarrow> {(video_url inp, c)})"
  by (simp add: handler_def try_block_def split: option.splits sum.splits prod.splits)

lemma run_script_calls_cached:
  "client_cache ps = Some c \<Longrightarrow> snd ` set (pipeline_calls (run_script inp ps)) \<subseteq> {c}"
proof -
  assume a: "client_cache ps = Some c"
  have g: "gemini_client (initialise inp ps) = None \<or> gemini_client (initialise inp ps) = Some c"
    using a by (simp add: initialise_def get_gemini_client_def split: option.splits)
  show ?thesis
    using g handler_calls_client [of inp "gemini_client (initialise inp ps)"]
    by (auto simp add: run_script_calls)
qed

subsection \<open>Input validation\<close>

text \<open>
  C2. For every input string that starts neither with \<open>http://\<close> nor with
  \<open>https://\<close>, an execution of the script makes no call of \<open>process_video_insights\<close>:
  whatever the API key, the client, the state of the process and the button.
\<close>

theorem invalid_url_no_pipeline_call:
  "\<not> startswith_any (video_url inp) [''http://'', ''https://''] \<Longrightarrow>
   pipeline_calls (run_script inp ps) = []"
  by (simp add: run_script_calls handler_invalid_calls)

theorem invalid_url_no_pipeline_call_witness:
  "\<not> startswith_any (video_url (click ''ftp://example.com/v'' (pipeline_returns example_analysis)))
        [''http://'', ''https://'']
   \<and> pipeline_calls (run_script (click ''ftp://example.com/v'' (pipeline_returns example_analysis))
          fresh_process) = []"
  using invalid_url_no_pipeline_call
    [of "click ''ftp://example.com/v'' (pipeline_returns example_analysis)" fresh_process]
  by (simp add: click_def startswith_any_def startswith_def)

text \<open>
  C10. With the empty string in the text input, a click on the button does nothing: the
  pipeline is not called, the validation error is not rendered, and the execution renders
  what an execution without a click renders, since \<open>and video_url\<close> is false before the
  check of the prefix is reached.
\<close>

theorem empty_input_silent_noop:
  "pipeline_calls (run_script (inp\<lparr>video_url := [], button_clicked := True\<rparr>) ps) = []
   \<and> validation_error \<notin> set (rendered (run_script (inp\<lparr>video_url := [], button_clicked := True\<rparr>) ps))
   \<and> rendered (run_script (inp\<lparr>video_url := [], button_clicked := True\<rparr>) ps)
       = rendered (run_script (inp\<lparr>video_url := [], button_clicked := False\<rparr>) ps)"
  by (simp add: run_script_def Let_def handler_def initialise_def get_gemini_client_def
      validation_error_def page_header_def url_input_def analyze_button_def footer_def
      api_key_warning_def split: option.splits prod.splits sum.splits)

text \<open>
  C3, as the spec states it: every input string without one of the two prefixes, when
  submitted, gets the validation error and the execution halts. The empty string has
  neither prefix; a click with it renders no validation error and the script runs to its
  last line.
\<close>

theorem empty_input_no_validation_error:
  "\<not> startswith_any (video_url (click [] (pipeline_returns example_analysis))) [''http://'', ''https://'']
   \<and> validation_error \<notin> set (rendered (run_script (click [] (pipeline_returns example_analysis)) fresh_process))
   \<and> ended (run_script (click [] (pipeline_returns example_analysis)) fresh_process) = Completed"
proof -
  have h: "handler (click [] (pipeline_returns example_analysis))
             (Some \<lparr>client_api_key = ''key'', client_id = 0\<rparr>) = ([], [], Completed)"
    by (simp add: handler_def click_def)
  have u: "\<not> startswith_any (video_url (click [] (pipeline_returns example_analysis)))
             [''http://'', ''https://'']"
    by (simp add: click_def startswith_any_def startswith_def)
  show ?thesis
    using u by (simp add: run_script_click [OF h] validation_error_def page_header_def
        url_input_def analyze_button_def footer_def)
qed

text \<open>
  C3, amended: for every input string that is not empty and starts with neither
  \<open>http://\<close> nor \<open>https://\<close>, a click on the button, in an execution that has its
  client, renders the validation error after the input and the button and is halted
  there by \<open>st.stop()\<close>: nothing else is rendered and the pipeline is not called.
\<close>

theorem invalid_url_rejected:
  "gemini_client (initialise inp ps) = Some c \<Longrightarrow>
   button_clicked inp \<Longrightarrow>
   video_url inp \<noteq> [] \<Longrightarrow>
   \<not> startswith_any (video_url inp) [''http://'', ''https://''] \<Longrightarrow>
   rendered (run_script inp ps) = page_header @ [url_input, analyze_button, validation_error]
   \<and> ended (run_script inp ps) = Stopped
   \<and> pipeline_calls (run_script inp ps) = []"
proof -
  assume c: "gemini_client (initialise inp ps) = Some c"
    and b: "button_clicked inp" and n: "video_url inp \<noteq> []"
    and i: "\<not> startswith_any (video_url inp) [''http://'', ''https://'']"
  have h: "handler inp (gemini_client (initialise inp ps)) = ([validation_error], [], Stopped)"
    using b n i by (simp add: handler_def)
  show ?thesis
    using run_script_rendered [OF _ _ _ h] initialise_has_client [OF c] by simp
qed

theorem invalid_url_rejected_witness:
  "gemini_client (initialise (click ''ftp://example.com/v'' (pipeline_returns example_analysis)) fresh_process)
     = Some \<lparr>client_api_key = ''key'', client_id = 0\<rparr>
   \<and> button_clicked (click ''ftp://example.com/v'' (pipeline_returns example_analysis))
   \<and> video_url (click ''ftp://example.com/v'' (pipeline_returns example_analysis)) \<noteq> []
   \<and> \<not> startswith_any (video_url (click ''ftp://example.com/v'' (pipeline_returns example_analysis)))
         [''http://'', ''https://'']
   \<and> rendered (run_script (click ''ftp://example.com/v'' (pipeline_returns example_analysis)) fresh_process)
       = page_header @ [url_input, analyze_button, validation_error]
   \<and> ended (run_script (click ''ftp://example.com/v'' (pipeline_returns example_analysis)) fresh_process) = Stopped
   \<and> pipeline_calls (run_script (click ''ftp://example.com/v'' (pipeline_returns example_analysis)) fresh_process) = []"
  using invalid_url_rejected
    [of "click ''ftp://example.com/v'' (pipeline_returns example_analysis)" fresh_process
        "\<lparr>client_api_key = ''key'', client_id = 0\<rparr>"]
  by (simp add: initialise_click) (simp add: click_def startswith_any_def startswith_def)

subsection \<open>The missing API key\<close>

text \<open>
  C4. When \<open>GEMINI_API_KEY\<close> is absent (or empty), the execution renders the page header
  and the warning and is stopped there: neither the text input nor the button is
  rendered, and no call of \<open>process_video_insights\<close> is made, whatever the input string,
  the button and the state of the process.
\<close>

theorem no_api_key_blocks_form:
  "\<not> key_truthy (GEMINI_API_KEY inp) \<Longrightarrow>
   rendered (run_script inp ps) = page_header @ [api_key_warning]
   \<and> url_input \<notin> set (rendered (run_script inp ps))
   \<and> analyze_button \<notin> set (rendered (run_script inp ps))
   \<and> ended (run_script inp ps) = Stopped
   \<and> pipeline_calls (run_script inp ps) = []"
  by (simp add: run_script_def initialise_no_key page_header_def api_key_warning_def
      url_input_def analyze_button_def)

theorem no_api_key_blocks_form_witness:
  "\<not> key_truthy (GEMINI_API_KEY (no_key ''https://example.com/v'' (pipeline_returns example_analysis)))
   \<and> rendered (run_script (no_key ''https://example.com/v'' (pipeline_returns example_analysis)) fresh_process)
       = page_header @ [api_key_warning]
   \<and> ended (run_script (no_key ''https://example.com/v'' (pipeline_returns example_analysis)) fresh_process) = Stopped
   \<and> pipeline_calls (run_script (no_key ''https://example.com/v'' (pipeline_returns example_analysis)) fresh_process) = []"
  using no_api_key_blocks_form
    [of "no_key ''https://example.com/v'' (pipeline_returns example_analysis)" fresh_process]
  by (simp add: no_key_def click_def key_truthy_def)

subsection \<open>Failures of the pipeline\<close>

text \<open>
  C5. When the pipeline call raises a \<open>ConnectionError\<close>, the execution renders, after the
  input, the button and the interrupted status, the API error with the text of the
  exception and the hint on the API key and the network, then the footer; it renders no
  element of the processing-error clause and none of the unexpected-error clause, and it
  runs to its last line.
\<close>

theorem connection_error_api_path:
  assumes "gemini_client (initialise inp ps) = Some c"
    and "button_clicked inp"
    and "startswith_any (video_url inp) [''http://'', ''https://'']"
    and "process_video_insights inp (video_url inp) c = Inl e"
    and "exc_class e = ConnectionError"
  shows "rendered (run_script inp ps)
           = page_header @ [url_input, analyze_button, status_interrupted] @ api_error e @ footer
         \<and> set (processing_error e') \<inter> set (rendered (run_script inp ps)) = {}
         \<and> set (unexpected_error e') \<inter> set (rendered (run_script inp ps)) = {}
         \<and> ended (run_script inp ps) = Completed"
proof -
  have t: "try_block inp (Some c) = (status_interrupted # api_error e, [(video_url inp, c)], Completed)"
    using assms(4,5) by (simp add: try_block_raises except_clauses_def)
  have r: "rendered (run_script inp ps)
           = page_header @ [url_input, analyze_button, status_interrupted] @ api_error e @ footer"
    and k: "ended (run_script inp ps) = Completed"
    using run_script_try [OF assms(1,2,3) t] by simp_all
  have p: "set (processing_error e') \<inter> set (rendered (run_script inp ps)) = {}"
    unfolding r
    by (simp add: processing_error_def api_error_def page_header_def url_input_def
        analyze_button_def status_interrupted_def footer_def)
  have u: "set (unexpected_error e') \<inter> set (rendered (run_script inp ps)) = {}"
    unfolding r
    by (simp add: unexpected_error_def api_error_def page_header_def url_input_def
        analyze_button_def status_interrupted_def footer_def)
  show ?thesis using r p u k by simp
qed

theorem connection_error_api_path_witness:
  "gemini_client (initialise (click ''https://example.com/v''
       (pipeline_raises (PyExc ConnectionError ''timed out''))) fresh_process)
     = Some \<lparr>client_api_key = ''key'', client_id = 0\<rparr>
   \<and> button_clicked (click ''https://example.com/v''
         (pipeline_raises (PyExc ConnectionError ''timed out'')))
   \<and> startswith_any (video_url (click ''https://example.com/v''
         (pipeline_raises (PyExc ConnectionError ''timed out'')))) [''http://'', ''https://'']
   \<and> rendered (run_script (click ''https://example.com/v''
       (pipeline_raises (PyExc ConnectionError ''timed out''))) fresh_process)
     = page_header @ [url_input, analyze_button, status_interrupted,
         Error ''**API Error:** timed out'',
         Markdown ''Please verify your Gemini API key is correct and ensure network connectivity.'']
       @ footer"
  using connection_error_api_path
    [of "click ''https://example.com/v'' (pipeline_raises (PyExc ConnectionError ''timed out''))"
        fresh_process "\<lparr>client_api_key = ''key'', client_id = 0\<rparr>"
        "PyExc ConnectionError ''timed out''"]
  by (simp add: initialise_click api_error_def)
     (simp add: click_def startswith_any_def startswith_def pipeline_raises_def)


text \<open>
  C6. When the pipeline call raises a \<open>ValueError\<close>, the execution renders the processing
  error with the text of the exception and the hint that the link must be public and
  accessible; it renders no element of the API-error clause and none of the
  unexpected-error clause, and it runs to its last line.
\<close>

theorem value_error_processing_path:
  assumes "gemini_client (initialise inp ps) = Some c"
    and "button_clicked inp"
    and "startswith_any (video_url inp) [''http://'', ''https://'']"
    and "process_video_insights inp (video_url inp) c = Inl e"
    and "exc_class e = ValueError"
  shows "rendered (run_script inp ps)
           = page_header @ [url_input, analyze_button, status_interrupted]
             @ processing_error e @ footer
         \<and> set (api_error e') \<inter> set (rendered (run_script inp ps)) = {}
         \<and> set (unexpected_error e') \<inter> set (rendered (run_script inp ps)) = {}
         \<and> ended (run_script inp ps) = Completed"
proof -
  have t: "try_block inp (Some c)
           = (status_interrupted # processing_error e, [(video_url inp, c)], Completed)"
    using assms(4,5) by (simp add: try_block_raises except_clauses_def)
  have r: "rendered (run_script inp ps)
           = page_header @ [url_input, analyze_button, status_interrupted]
             @ processing_error e @ footer"
    and k: "ended (run_script inp ps) = Completed"
    using run_script_try [OF assms(1,2,3) t] by simp_all
  have p: "set (api_error e') \<inter> set (rendered (run_script inp ps)) = {}"
    unfolding r
    by (simp add: processing_error_def api_error_def page_header_def url_input_def
        analyze_button_def status_interrupted_def footer_def)
  have u: "set (unexpected_error e') \<inter> set (rendered (run_script inp ps)) = {}"
    unfolding r
    by (simp add: unexpected_error_def processing_error_def page_header_def url_input_def
        analyze_button_def status_interrupted_def footer_def)
  show ?thesis using r p u k by simp
qed

theorem value_error_processing_path_witness:
  "gemini_client (initialise (click ''https://example.com/v''
       (pipeline_raises (PyExc ValueError ''no audio''))) fresh_process)
     = Some \<lparr>client_api_key = ''key'', client_id = 0\<rparr>
   \<and> button_clicked (click ''https://example.com/v'' (pipeline_raises (PyExc ValueError ''no audio'')))
   \<and> startswith_any (video_url (click ''https://example.com/v''
         (pipeline_raises (PyExc ValueError ''no audio'')))) [''http://'', ''https://'']
   \<and> rendered (run_script (click ''https://example.com/v''
         (pipeline_raises (PyExc ValueError ''no audio''))) fresh_process)
       = page_header @ [url_input, analyze_button, status_interrupted,
           Error ''**Processing Error:** no audio'',
           Markdown ''This usually means `yt-dlp` couldn't process the video URL. Ensure the link is public and accessible.'']
         @ footer"
  using value_error_processing_path
    [of "click ''https://example.com/v'' (pipeline_raises (PyExc ValueError ''no audio''))"
        fresh_process "\<lparr>client_api_key = ''key'', client_id = 0\<rparr>"
        "PyExc ValueError ''no audio''"]
  by (simp add: initialise_click processing_error_def)
     (simp add: click_def startswith_any_def startswith_def pipeline_raises_def)

text \<open>
  C7, as the spec states it: every exception raised by the pipeline call is caught by the
  handler. The last clause is \<open>except Exception\<close>: an exception outside \<open>Exception\<close>,
  such as \<open>SystemExit\<close>, matches no clause and leaves the script.
\<close>

theorem system_exit_propagates:
  "process_video_insights (click ''https://example.com/v'' (pipeline_raises (PyExc NonException ''SystemExit'')))
     ''https://example.com/v'' \<lparr>client_api_key = ''key'', client_id = 0\<rparr>
     = Inl (PyExc NonException ''SystemExit'')
   \<and> pipeline_calls (run_script (click ''https://example.com/v''
         (pipeline_raises (PyExc NonException ''SystemExit''))) fresh_process)
       = [(''https://example.com/v'', \<lparr>client_api_key = ''key'', client_id = 0\<rparr>)]
   \<and> ended (run_script (click ''https://example.com/v''
         (pipeline_raises (PyExc NonException ''SystemExit''))) fresh_process)
       = Raised (PyExc NonException ''SystemExit'')"
proof -
  have t: "try_block (click ''https://example.com/v'' (pipeline_raises (PyExc NonException ''SystemExit'')))
             (Some \<lparr>client_api_key = ''key'', client_id = 0\<rparr>)
           = ([status_interrupted],
              [(''https://example.com/v'', \<lparr>client_api_key = ''key'', client_id = 0\<rparr>)],
              Raised (PyExc NonException ''SystemExit''))"
    by (simp add: try_block_def click_def pipeline_raises_def except_clauses_def)
  have h: "handler (click ''https://example.com/v'' (pipeline_raises (PyExc NonException ''SystemExit'')))
             (Some \<lparr>client_api_key = ''key'', client_id = 0\<rparr>)
           = ([status_interrupted],
              [(''https://example.com/v'', \<lparr>client_api_key = ''key'', client_id = 0\<rparr>)],
              Raised (PyExc NonException ''SystemExit''))"
    unfolding t [symmetric]
    by (simp add: handler_def click_def startswith_any_def startswith_def)
  show ?thesis
    by (simp add: run_script_click [OF h]) (simp add: click_def pipeline_raises_def)
qed

text \<open>
  C7, amended: for every exception raised by the pipeline call that is an instance of
  \<open>Exception\<close>, the handler catches it and the script runs to its last line; and for
  every exception raised by the pipeline call, of any class, the execution renders none
  of the three success outputs (no metric, no focus callout, no transcript block).
\<close>

theorem pipeline_exception_no_results:
  assumes "gemini_client (initialise inp ps) = Some c"
    and "button_clicked inp"
    and "startswith_any (video_url inp) [''http://'', ''https://'']"
    and "process_video_insights inp (video_url inp) c = Inl e"
  shows "(is_Exception e \<longrightarrow> ended (run_script inp ps) = Completed)
         \<and> filter success_output (rendered (run_script inp ps)) = []"
proof -
  have r: "rendered (run_script inp ps)
           = page_header @ [url_input, analyze_button] @ (status_interrupted # fst (except_clauses e))
             @ (if snd (except_clauses e) = Completed then footer else [])"
    and k: "ended (run_script inp ps) = snd (except_clauses e)"
    using run_script_try [OF assms(1,2,3) try_block_raises [OF assms(4)]] by simp_all
  have x: "filter success_output (fst (except_clauses e)) = []"
    by (cases "exc_class e")
       (simp_all add: except_clauses_def api_error_def processing_error_def unexpected_error_def)
  have f: "filter success_output (rendered (run_script inp ps)) = []"
    unfolding r using x
    by (simp add: page_header_def url_input_def analyze_button_def status_interrupted_def
        footer_def)
  have c: "is_Exception e \<longrightarrow> snd (except_clauses e) = Completed"
    by (cases "exc_class e") (simp_all add: except_clauses_def is_Exception_def)
  show ?thesis using f c k by simp
qed

theorem pipeline_exception_no_results_witness:
  "is_Exception (PyExc OtherException ''boom'')
   \<and> ended (run_script (click ''https://example.com/v''
         (pipeline_raises (PyExc OtherException ''boom''))) fresh_process) = Completed
   \<and> filter success_output (rendered (run_script (click ''https://example.com/v''
         (pipeline_raises (PyExc OtherException ''boom''))) fresh_process)) = []"
  using pipeline_exception_no_results
    [of "click ''https://example.com/v'' (pipeline_raises (PyExc OtherException ''boom''))"
        fresh_process "\<lparr>client_api_key = ''key'', client_id = 0\<rparr>"
        "PyExc OtherException ''boom''"]
  by (simp add: initialise_click is_Exception_def)
     (simp add: click_def startswith_any_def startswith_def pipeline_raises_def)

subsection \<open>A successful analysis\<close>

text \<open>
  C1. When the pipeline call returns an analysis with \<open>clarity_score = 87\<close>,
  \<open>communication_focus = "Active Listening"\<close> and \<open>transcript = "Hello world"\<close>, the
  execution renders, after the completed status and the subheader, the metric with the
  value \<open>87%\<close>, the informational callout with the focus label verbatim, and the
  expander, collapsed (\<open>expanded=False\<close>), that holds the transcript as a code block.
\<close>

theorem example_result_rendered:
  assumes "gemini_client (initialise inp ps) = Some c"
    and "button_clicked inp"
    and "startswith_any (video_url inp) [''http://'', ''https://'']"
    and "process_video_insights inp (video_url inp) c = Inr a"
    and "clarity_score a = 87"
    and "communication_focus a = ''Active Listening''"
    and "transcript a = ''Hello world''"
  shows "rendered (run_script inp ps)
           = page_header @ [url_input, analyze_button, status_complete,
               Subheader ([CHR 0xE2, CHR 0x9C, CHR 0x85] @ '' Analysis Results''),
               Metric ''Clarity Score'' ''87%'' ''off'',
               Info ''**Communication Focus:** Active Listening'',
               Expander ''View Full Transcript'' False [Code ''Hello world'' ''text'']]
             @ footer"
proof -
  have d: "display_outputs a =
     ([Subheader ([CHR 0xE2, CHR 0x9C, CHR 0x85] @ '' Analysis Results''),
       Metric ''Clarity Score'' ''87%'' ''off'',
       Info ''**Communication Focus:** Active Listening'',
       Expander ''View Full Transcript'' False [Code ''Hello world'' ''text'']], None)"
    using assms(5,6,7)
    by (simp add: display_outputs_def format_int_def int_max_str_digits_def str_int_def
        str_nat_87 results_subheader_def score_metric_def focus_info_def
        transcript_expander_def)
  show ?thesis
    using run_script_try [OF assms(1,2,3) try_block_returns [OF assms(4)]] d by simp
qed

theorem example_result_rendered_witness:
  "gemini_client (initialise (click ''https://example.com/v'' (pipeline_returns example_analysis))
       fresh_process) = Some \<lparr>client_api_key = ''key'', client_id = 0\<rparr>
   \<and> button_clicked (click ''https://example.com/v'' (pipeline_returns example_analysis))
   \<and> startswith_any (video_url (click ''https://example.com/v'' (pipeline_returns example_analysis)))
         [''http://'', ''https://'']
   \<and> process_video_insights (click ''https://example.com/v'' (pipeline_returns example_analysis))
         (video_url (click ''https://example.com/v'' (pipeline_returns example_analysis)))
         \<lparr>client_api_key = ''key'', client_id = 0\<rparr> = Inr example_analysis
   \<and> Metric ''Clarity Score'' ''87%'' ''off''
       \<in> set (rendered (run_script (click ''https://example.com/v'' (pipeline_returns example_analysis))
                fresh_process))
   \<and> Info ''**Communication Focus:** Active Listening''
       \<in> set (rendered (run_script (click ''https://example.com/v'' (pipeline_returns example_analysis))
                fresh_process))
   \<and> Expander ''View Full Transcript'' False [Code ''Hello world'' ''text'']
       \<in> set (rendered (run_script (click ''https://example.com/v'' (pipeline_returns example_analysis))
                fresh_process))"
  using example_result_rendered
    [of "click ''https://example.com/v'' (pipeline_returns example_analysis)"
        fresh_process "\<lparr>client_api_key = ''key'', client_id = 0\<rparr>" example_analysis]
  by (simp add: initialise_click)
     (simp add: click_def startswith_any_def startswith_def pipeline_returns_def
        example_analysis_def)

text \<open>
  C9. For two consecutive interactions, the second of which is an analysis whose pipeline
  call returns: whatever the first interaction was (its URL, its result, the state it
  started from), the output of the second execution is the page, the completed status and
  what lines 89 to 113 render from the second call's analysis alone. That is the subheader
  and the three outputs computed from the second analysis when its score has at most 4300
  digits, and the subheader and the processing error of the failed conversion otherwise.
\<close>

theorem second_result_only:
  assumes "gemini_client (initialise inp2 (proc_after (run_script inp1 ps))) = Some c"
    and "button_clicked inp2"
    and "startswith_any (video_url inp2) [''http://'', ''https://'']"
    and "process_video_insights inp2 (video_url inp2) c = Inr a2"
  shows "rendered (run_script inp2 (proc_after (run_script inp1 ps)))
           = page_header @ [url_input, analyze_button, status_complete]
             @ fst (display_outputs a2)
             @ (case snd (display_outputs a2) of None \<Rightarrow> [] | Some e \<Rightarrow> processing_error e)
             @ footer
         \<and> (length (str_nat (nat \<bar>clarity_score a2\<bar>)) \<le> int_max_str_digits \<longrightarrow>
              rendered (run_script inp2 (proc_after (run_script inp1 ps)))
                = page_header @ [url_input, analyze_button, status_complete, results_subheader,
                    score_metric (str_int (clarity_score a2)), focus_info a2,
                    transcript_expander a2]
                  @ footer)"
proof -
  have r: "rendered (run_script inp2 (proc_after (run_script inp1 ps)))
           = page_header @ [url_input, analyze_button, status_complete]
             @ fst (display_outputs a2)
             @ (case snd (display_outputs a2) of None \<Rightarrow> [] | Some e \<Rightarrow> processing_error e)
             @ footer"
    using run_script_try [OF assms(1,2,3) try_block_returns [OF assms(4)]] by simp
  show ?thesis
    unfolding r by (simp add: display_outputs_within_limit)
qed

theorem second_result_only_witness:
  "length (str_nat (nat \<bar>clarity_score example_analysis\<bar>)) \<le> int_max_str_digits
   \<and> rendered (run_script (click ''https://example.com/second'' (pipeline_returns example_analysis))
      (proc_after (run_script (click ''https://example.com/first'' (pipeline_returns other_analysis))
         fresh_process)))
     = page_header @ [url_input, analyze_button, status_complete, results_subheader,
         Metric ''Clarity Score'' ''87%'' ''off'',
         Info ''**Communication Focus:** Active Listening'',
         Expander ''View Full Transcript'' False [Code ''Hello world'' ''text'']]
       @ footer
   \<and> score_metric (str_int (clarity_score other_analysis)) \<notin> set (rendered (run_script
         (click ''https://example.com/second'' (pipeline_returns example_analysis))
         (proc_after (run_script (click ''https://example.com/first'' (pipeline_returns other_analysis))
            fresh_process))))
   \<and> focus_info other_analysis \<notin> set (rendered (run_script
         (click ''https://example.com/second'' (pipeline_returns example_analysis))
         (proc_after (run_script (click ''https://example.com/first'' (pipeline_returns other_analysis))
            fresh_process))))
   \<and> transcript_expander other_analysis \<notin> set (rendered (run_script
         (click ''https://example.com/second'' (pipeline_returns example_analysis))
         (proc_after (run_script (click ''https://example.com/first'' (pipeline_returns other_analysis))
            fresh_process))))"
proof -
  have s: "proc_after (run_script (click ''https://example.com/first'' (pipeline_returns other_analysis))
             fresh_process)
           = \<lparr>client_cache = Some \<lparr>client_api_key = ''key'', client_id = 0\<rparr>,
              constructions = Suc 0, client_ready = Some True\<rparr>"
    by (simp add: proc_after_run_script initialise_click)
  have g: "gemini_client (initialise (click ''https://example.com/second'' (pipeline_returns example_analysis))
             (proc_after (run_script (click ''https://example.com/first'' (pipeline_returns other_analysis))
                fresh_process))) = Some \<lparr>client_api_key = ''key'', client_id = 0\<rparr>"
    unfolding s by (simp add: initialise_click_cached)
  have l: "length (str_nat (nat \<bar>clarity_score example_analysis\<bar>)) \<le> int_max_str_digits"
    by (simp add: example_analysis_def str_nat_87 int_max_str_digits_def)
  have b: "button_clicked (click ''https://example.com/second'' (pipeline_returns example_analysis))"
    by (simp add: click_def)
  have v: "startswith_any
             (video_url (click ''https://example.com/second'' (pipeline_returns example_analysis)))
             [''http://'', ''https://'']"
    by (simp add: click_def startswith_any_def startswith_def)
  have p: "process_video_insights
             (click ''https://example.com/second'' (pipeline_returns example_analysis))
             (video_url (click ''https://example.com/second'' (pipeline_returns example_analysis)))
             \<lparr>client_api_key = ''key'', client_id = 0\<rparr> = Inr example_analysis"
    by (simp add: click_def pipeline_returns_def)
  have r: "rendered (run_script (click ''https://example.com/second'' (pipeline_returns example_analysis))
      (proc_after (run_script (click ''https://example.com/first'' (pipeline_returns other_analysis))
         fresh_process)))
     = page_header @ [url_input, analyze_button, status_complete, results_subheader,
         score_metric (str_int (clarity_score example_analysis)), focus_info example_analysis,
         transcript_expander example_analysis]
       @ footer"
    using second_result_only [OF g b v p] l by blast
  show ?thesis
    unfolding r using l
    by (simp add: page_header_def url_input_def analyze_button_def status_complete_def
        results_subheader_def score_metric_def focus_info_def transcript_expander_def
        footer_def other_analysis_def example_analysis_def str_int_def str_nat_87 str_nat_42)
qed

subsection \<open>One client per process\<close>

text \<open>
  C8. After any sequence of executions in a process that started with an empty cache,
  \<open>genai.Client\<close> has returned at most one handle; and once the cache holds a handle,
  every call of \<open>get_gemini_client\<close> returns that handle and leaves the state as it is,
  every later sequence of executions keeps the cache and the count of constructions
  unchanged, and every call of the pipeline receives that handle.
\<close>

theorem client_constructed_once:
  "constructions (run_all inps fresh_process) \<le> 1
   \<and> (client_cache (run_all inps fresh_process) = Some c \<longrightarrow>
        get_gemini_client ctor key (run_all inps fresh_process)
          = (Inr c, run_all inps fresh_process)
        \<and> client_cache (run_all later_inps (run_all inps fresh_process)) = Some c
        \<and> constructions (run_all later_inps (run_all inps fresh_process)) = 1
        \<and> snd ` set (pipeline_calls (run_script inp (run_all later_inps (run_all inps fresh_process))))
            \<subseteq> {c})"
proof -
  have s: "single_client (run_all inps fresh_process)"
    by (rule run_all_single) (simp add: single_client_def fresh_process_def)
  have le: "constructions (run_all inps fresh_process) \<le> 1"
    using s by (simp add: single_client_def split: option.splits)
  have after: "get_gemini_client ctor key (run_all inps fresh_process)
          = (Inr c, run_all inps fresh_process)
        \<and> client_cache (run_all later_inps (run_all inps fresh_process)) = Some c
        \<and> constructions (run_all later_inps (run_all inps fresh_process)) = 1
        \<and> snd ` set (pipeline_calls (run_script inp (run_all later_inps (run_all inps fresh_process))))
            \<subseteq> {c}"
    if c: "client_cache (run_all inps fresh_process) = Some c"
  proof -
    have one: "constructions (run_all inps fresh_process) = 1"
      using s c by (simp add: single_client_def)
    have k: "client_cache (run_all later_inps (run_all inps fresh_process)) = Some c"
      and n: "constructions (run_all later_inps (run_all inps fresh_process)) = 1"
      using run_all_keeps_cache [OF c, of later_inps] one by simp_all
    show ?thesis
      using get_gemini_client_cached [OF c] k n run_script_calls_cached [OF k] by simp
  qed
  show ?thesis using le after by blast
qed

theorem client_constructed_once_witness:
  "client_cache (run_all [click ''https://example.com/first'' (pipeline_returns example_analysis)]
       fresh_process) = Some \<lparr>client_api_key = ''key'', client_id = 0\<rparr>
   \<and> get_gemini_client client_ok ''key''
        (run_all [click ''https://example.com/first'' (pipeline_returns example_analysis)] fresh_process)
       = (Inr \<lparr>client_api_key = ''key'', client_id = 0\<rparr>,
          run_all [click ''https://example.com/first'' (pipeline_returns example_analysis)] fresh_process)
   \<and> constructions (run_all [click ''https://example.com/second'' (pipeline_returns example_analysis)]
        (run_all [click ''https://example.com/first'' (pipeline_returns example_analysis)]
           fresh_process)) = 1"
proof -
  have c: "client_cache (run_all [click ''https://example.com/first'' (pipeline_returns example_analysis)]
       fresh_process) = Some \<lparr>client_api_key = ''key'', client_id = 0\<rparr>"
    by (simp add: proc_after_run_script initialise_click)
  show ?thesis
    using c client_constructed_once
      [of "[click ''https://example.com/first'' (pipeline_returns example_analysis)]"
          "\<lparr>client_api_key = ''key'', client_id = 0\<rparr>" client_ok "''key''"
          "[click ''https://example.com/second'' (pipeline_returns example_analysis)]"]
    by blast
qed

end
